theory Spec2Isabelle
  imports Complex_Main "HOL-Library.List_Lexorder" "HOL-Library.Char_ord" "HOL-Library.AList"
begin

section \<open>Python strings and number formatting\<close>

text \<open>
  A Python \<open>str\<close> is modelled as a \<open>string\<close> (a list of 8-bit characters) that holds the
  UTF-8 encoding of the text. Equality of strings and the substring test \<open>a in b\<close> are the
  same on the encoding as on the code points. The only character beyond ASCII that the
  program writes itself is the dagger U+2020 of the token for a positive result.

  A Python \<open>float\<close> is modelled as a \<open>real\<close>: the decision rule is read as exact arithmetic,
  and the values inf and nan have no counterpart.
\<close>

definition dagger :: string where
  "dagger = [CHR 0xE2, CHR 0x80, CHR 0xA0]"

text \<open>\<open>startswith\<close> and the operator \<open>in\<close> on strings.\<close>

fun startswith :: "string \<Rightarrow> string \<Rightarrow> bool" where
  "startswith s [] = True"
| "startswith [] (p # ps) = False"
| "startswith (c # cs) (p # ps) = (c = p \<and> startswith cs ps)"

fun str_in :: "string \<Rightarrow> string \<Rightarrow> bool" where
  "str_in sub [] = (sub = [])"
| "str_in sub (c # cs) = (startswith (c # cs) sub \<or> str_in sub cs)"

text \<open>The decimal digits of a natural number, as \<open>str(n)\<close> gives them.\<close>

definition digit_char :: "nat \<Rightarrow> char" where
  "digit_char d = ''0123456789'' ! d"

fun str_nat :: "nat \<Rightarrow> string" where
  "str_nat n = (if n < 10 then [digit_char n] else str_nat (n div 10) @ [digit_char (n mod 10)])"

declare str_nat.simps [simp del]

definition zfill :: "nat \<Rightarrow> string \<Rightarrow> string" where
  "zfill w s = replicate (w - length s) (CHR ''0'') @ s"

text \<open>
  The format \<open>{x:.3f}\<close>: the sign, the integer part, a point and three decimals, the
  value rounded to the nearest thousandth with ties to the even neighbour.
\<close>

definition round_half_even :: "real \<Rightarrow> int" where
  "round_half_even x =
     (let k = \<lfloor>x\<rfloor>; f = x - of_int k
      in if f < 1/2 then k else if f > 1/2 then k + 1 else if even k then k else k + 1)"

definition fmt3 :: "real \<Rightarrow> string" where
  "fmt3 x =
     (let n = nat (round_half_even (\<bar>x\<bar> * 1000))
      in (if x < 0 then ''-'' else '''') @ str_nat (n div 1000) @ ''.'' @ zfill 3 (str_nat (n mod 1000)))"


section \<open>Core interpretation logic\<close>

text \<open>The three result tokens that \<open>interpret_qft\<close> writes.\<close>

definition POS_tok :: string where
  "POS_tok = ''POS'' @ dagger"

definition NEG_tok :: string where
  "NEG_tok = ''NEG''"

definition IND_tok :: string where
  "IND_tok = ''IND*''"

text \<open>The dictionary that \<open>interpret_qft\<close> returns, one field for each key.\<close>

record classification =
  result :: string
  tb1_nil :: real
  tb2_nil :: real
  mit_nil :: real
  nil_25 :: real
  reason :: string
  input_nil :: real
  input_tb1 :: real
  input_tb2 :: real
  input_mit :: real

definition interpret_qft :: "real \<Rightarrow> real \<Rightarrow> real \<Rightarrow> real \<Rightarrow> classification" where
  "interpret_qft nil tb1 tb2 mit =
     (let tb1_minus_nil = tb1 - nil;
          tb2_minus_nil = tb2 - nil;
          mit_minus_nil = mit - nil;
          nil_25_percent = (if nil \<ge> 0 then 0.25 * nil else 0);
          (qft_result, why) =
            (if nil > 8.0
             then (IND_tok, ''High Nil Control ('' @ fmt3 nil @ '' > 8.0 IU/mL)'')
             else
               let is_tb1_pos = (tb1_minus_nil \<ge> 0.35 \<and> tb1_minus_nil \<ge> nil_25_percent);
                   is_tb2_pos = (tb2_minus_nil \<ge> 0.35 \<and> tb2_minus_nil \<ge> nil_25_percent)
               in if is_tb1_pos
                  then (POS_tok, ''TB1 Antigen positive (TB1-Nil='' @ fmt3 tb1_minus_nil @ '' IU/mL)'')
                  else if is_tb2_pos
                  then (POS_tok, ''TB2 Antigen positive (TB2-Nil='' @ fmt3 tb2_minus_nil @ '' IU/mL)'')
                  else if mit_minus_nil \<ge> 0.5
                  then (NEG_tok, ''TB Antigens negative, Mitogen control valid'')
                  else (IND_tok, ''Low Mitogen Control (Mit-Nil='' @ fmt3 mit_minus_nil
                                   @ '' < 0.5 IU/mL difference)''))
      in \<lparr> result = qft_result, tb1_nil = tb1_minus_nil, tb2_nil = tb2_minus_nil,
           mit_nil = mit_minus_nil, nil_25 = nil_25_percent, reason = why,
           input_nil = nil, input_tb1 = tb1, input_tb2 = tb2, input_mit = mit \<rparr>)"

text \<open>The delta check's table of pairs and its two further tests, in the order of the source.\<close>

definition significant_pairs :: "(string \<times> string) set" where
  "significant_pairs =
     {(NEG_tok, POS_tok), (POS_tok, NEG_tok), (NEG_tok, IND_tok), (POS_tok, IND_tok)}"

definition check_significant_change :: "string \<Rightarrow> string \<Rightarrow> bool" where
  "check_significant_change prev_res curr_res =
     (if prev_res = curr_res then False
      else if (prev_res, curr_res) \<in> significant_pairs \<or> (curr_res, prev_res) \<in> significant_pairs
      then True
      else if prev_res = IND_tok \<and> curr_res \<in> {POS_tok, NEG_tok} then True
      else if curr_res = IND_tok \<and> prev_res \<in> {POS_tok, NEG_tok} then True
      else False)"

definition canonical_tokens :: "string set" where
  "canonical_tokens = {NEG_tok, POS_tok, IND_tok}"


section \<open>Errors, the history table and the application state\<close>

text \<open>
  An exception that a call may raise is a value of \<open>exn\<close>; a function in which one could
  travel to the caller returns a sum, with \<open>Inl\<close> for the exception that leaves it.

  The state holds what the modelled functions read and write: the table of the history
  database in order of insertion, two fault switches of the database (when one is set,
  every SELECT, or every INSERT, raises \<open>sqlite3.Error\<close> with that message), the wall clock
  as the text that \<open>strftime\<close> gives for it, the message boxes shown, the lines printed to
  stderr, the rows appended to the CSV log, and the flag \<open>is_processing\<close>. The status line,
  the widgets and the lines printed to stdout are left out.
\<close>

datatype exn = ValueError | IndexError | KeyError | Sqlite3Error string

record interpretation_row =
  col_timestamp :: string
  col_operator_id :: string
  col_sample_id :: string
  col_nil_value :: real
  col_tb1_value :: real
  col_tb2_value :: real
  col_mit_value :: real
  col_result :: string
  col_reason :: string
  col_run_id :: string

type_synonym report_row = "string \<times> string \<times> string \<times> string \<times> string \<times> string"

record app_state =
  interpretations :: "interpretation_row list"
  select_error :: "string option"
  insert_error :: "string option"
  clock :: string
  dialogs :: "(string \<times> string \<times> string) list"
  stderr :: "string list"
  csv_log :: "string list list"
  is_processing :: bool

definition messagebox :: "string \<Rightarrow> string \<Rightarrow> string \<Rightarrow> app_state \<Rightarrow> app_state" where
  "messagebox kind title message st = st\<lparr>dialogs := dialogs st @ [(kind, title, message)]\<rparr>"

definition print_stderr :: "string \<Rightarrow> app_state \<Rightarrow> app_state" where
  "print_stderr line st = st\<lparr>stderr := stderr st @ [line]\<rparr>"

section \<open>Dates\<close>

text \<open>
  \<open>datetime.strptime(s, '%Y-%m-%d')\<close>: four digits for the year, then a month and a day in
  one of the spellings that the pattern of each directive admits (a month as 1 to 9, 01 to
  09 or 10 to 12; a day likewise up to 31, or a space and one digit), separated by dashes,
  with nothing before or after; the date must exist in the calendar and the year must not
  be 0. Digits are the ASCII digits. \<open>strftime\<close> writes the year with four digits.
\<close>

definition is_digit :: "char \<Rightarrow> bool" where
  "is_digit c = (CHR ''0'' \<le> c \<and> c \<le> CHR ''9'')"

definition digit_val :: "char \<Rightarrow> nat" where
  "digit_val c = of_char c - 48"

fun split_dash :: "string \<Rightarrow> string list" where
  "split_dash [] = [[]]"
| "split_dash (c # cs) =
     (if c = CHR ''-'' then [] # split_dash cs
      else (case split_dash cs of [] \<Rightarrow> [[c]] | p # ps \<Rightarrow> (c # p) # ps))"

fun match_Y :: "string \<Rightarrow> nat option" where
  "match_Y [a, b, c, d] =
     (if is_digit a \<and> is_digit b \<and> is_digit c \<and> is_digit d
      then Some (1000 * digit_val a + 100 * digit_val b + 10 * digit_val c + digit_val d)
      else None)"
| "match_Y s = None"

fun match_m :: "string \<Rightarrow> nat option" where
  "match_m [a, b] =
     (if a = CHR ''1'' \<and> CHR ''0'' \<le> b \<and> b \<le> CHR ''2'' then Some (10 + digit_val b)
      else if a = CHR ''0'' \<and> CHR ''1'' \<le> b \<and> b \<le> CHR ''9'' then Some (digit_val b)
      else None)"
| "match_m [a] = (if CHR ''1'' \<le> a \<and> a \<le> CHR ''9'' then Some (digit_val a) else None)"
| "match_m s = None"

fun match_d :: "string \<Rightarrow> nat option" where
  "match_d [a, b] =
     (if a = CHR ''3'' \<and> CHR ''0'' \<le> b \<and> b \<le> CHR ''1'' then Some (30 + digit_val b)
      else if CHR ''1'' \<le> a \<and> a \<le> CHR ''2'' \<and> is_digit b then Some (10 * digit_val a + digit_val b)
      else if a = CHR ''0'' \<and> CHR ''1'' \<le> b \<and> b \<le> CHR ''9'' then Some (digit_val b)
      else if a = CHR '' '' \<and> CHR ''1'' \<le> b \<and> b \<le> CHR ''9'' then Some (digit_val b)
      else None)"
| "match_d [a] = (if CHR ''1'' \<le> a \<and> a \<le> CHR ''9'' then Some (digit_val a) else None)"
| "match_d s = None"

definition is_leap :: "nat \<Rightarrow> bool" where
  "is_leap y = (y mod 4 = 0 \<and> (y mod 100 \<noteq> 0 \<or> y mod 400 = 0))"

definition days_in_month :: "nat \<Rightarrow> nat \<Rightarrow> nat" where
  "days_in_month y m =
     (if m = 2 then (if is_leap y then 29 else 28)
      else if m \<in> {4, 6, 9, 11} then 30 else 31)"

definition strptime_ymd :: "string \<Rightarrow> exn + (nat \<times> nat \<times> nat)" where
  "strptime_ymd s =
     (case split_dash s of
        [ys, ms, ds] \<Rightarrow>
          (case (match_Y ys, match_m ms, match_d ds) of
             (Some y, Some m, Some d) \<Rightarrow>
               if 1 \<le> y \<and> d \<le> days_in_month y m then Inr (y, m, d) else Inl ValueError
           | _ \<Rightarrow> Inl ValueError)
      | _ \<Rightarrow> Inl ValueError)"

definition strftime_ymd :: "(nat \<times> nat \<times> nat) \<Rightarrow> string \<Rightarrow> string" where
  "strftime_ymd date suffix =
     (case date of (y, m, d) \<Rightarrow>
        zfill 4 (str_nat y) @ ''-'' @ zfill 2 (str_nat m) @ ''-'' @ zfill 2 (str_nat d) @ suffix)"


section \<open>Database helpers\<close>

text \<open>
  \<open>log_event\<close> returns at once for every event type but INTERPRET. For an interpretation it
  appends one row to the CSV log; the numbers reach it already formatted with three
  decimals, and parsing and formatting them again gives the same text.
\<close>

definition log_event ::
  "string \<Rightarrow> string \<Rightarrow> string \<Rightarrow> string \<Rightarrow> string \<Rightarrow> string \<Rightarrow> string list \<Rightarrow> app_state \<Rightarrow> app_state" where
  "log_event event_type op_id run_id sample_id res why details st =
     (if event_type \<noteq> ''INTERPRET'' then st
      else st\<lparr>csv_log := csv_log st @ [[clock st, op_id, run_id, sample_id] @ details @ [res, why]]\<rparr>)"

text \<open>
  The query of \<open>query_db_for_reports\<close>: the rows whose timestamp lies between the two
  bounds as text, in ascending order of timestamp (rows with equal timestamps in the order
  of insertion), projected to six columns.
\<close>

definition select_for_report :: "string \<Rightarrow> string \<Rightarrow> interpretation_row list \<Rightarrow> report_row list" where
  "select_for_report start_dt end_dt tbl =
     map (\<lambda>r. (col_timestamp r, col_operator_id r, col_run_id r, col_sample_id r, col_result r, col_reason r))
       (sort_key col_timestamp (filter (\<lambda>r. start_dt \<le> col_timestamp r \<and> col_timestamp r \<le> end_dt) tbl))"

definition query_db_for_reports ::
  "string \<Rightarrow> string \<Rightarrow> app_state \<Rightarrow> (exn + report_row list) \<times> app_state" where
  "query_db_for_reports start_date_str end_date_str st =
     (case strptime_ymd start_date_str of
        Inl e \<Rightarrow> (Inr [], messagebox ''showerror'' ''Date Error'' ''Invalid date format. Please use YYYY-MM-DD.'' st)
      | Inr d1 \<Rightarrow>
          (case strptime_ymd end_date_str of
             Inl e \<Rightarrow> (Inr [], messagebox ''showerror'' ''Date Error'' ''Invalid date format. Please use YYYY-MM-DD.'' st)
           | Inr d2 \<Rightarrow>
               (case select_error st of
                  Some e \<Rightarrow> (Inr [], messagebox ''showerror'' ''Database Error''
                                       (''Failed to query history for report:'' @ [CHR 0x0A] @ e) st)
                | None \<Rightarrow> (Inr (select_for_report (strftime_ymd d1 '' 00:00:00'')
                                    (strftime_ymd d2 '' 23:59:59'') (interpretations st)), st))))"

text \<open>
  The query of \<open>get_previous_result\<close>: among the rows of the sample, one with the greatest
  timestamp; of several such rows the model takes the one inserted last.
\<close>

definition select_latest :: "string \<Rightarrow> interpretation_row list \<Rightarrow> (string \<times> string) option" where
  "select_latest sample_id tbl =
     fold (\<lambda>r best. if col_sample_id r = sample_id
                       \<and> (case best of None \<Rightarrow> True | Some (res, ts) \<Rightarrow> ts \<le> col_timestamp r)
                     then Some (col_result r, col_timestamp r) else best) tbl None"

definition get_previous_result :: "string \<Rightarrow> app_state \<Rightarrow> (exn + (string \<times> string) option) \<times> app_state" where
  "get_previous_result sample_id st =
     (case select_error st of
        Some e \<Rightarrow> (Inr None, log_event ''ERROR'' ''System'' ''N/A'' sample_id ''N/A'' ''N/A''
                               [''Delta Check DB Error: '' @ e] st)
      | None \<Rightarrow> (Inr (select_latest sample_id (interpretations st)), st))"

section \<open>Dashboard and summary report\<close>

record tally =
  pos_count :: nat
  neg_count :: nat
  ind_count :: nat
  ind_reasons :: "string \<Rightarrow> nat"
  run_ids :: "string set"
  operators :: "string set"

definition empty_tally :: tally where
  "empty_tally = \<lparr> pos_count = 0, neg_count = 0, ind_count = 0, ind_reasons = (\<lambda>k. 0),
                   run_ids = {}, operators = {} \<rparr>"

definition count_reason :: "string \<Rightarrow> tally \<Rightarrow> tally" where
  "count_reason k t = t\<lparr>ind_reasons := (ind_reasons t)(k := ind_reasons t k + 1)\<rparr>"

definition classify_reason :: "string \<Rightarrow> tally \<Rightarrow> tally" where
  "classify_reason why t =
     (if str_in ''High Nil'' why then count_reason ''High Nil'' t
      else if str_in ''Low Mitogen'' why then count_reason ''Low Mitogen'' t
      else count_reason ''Other'' t)"

text \<open>The body of the loop of \<open>update_dashboard\<close>.\<close>

definition dashboard_row :: "report_row \<Rightarrow> tally \<Rightarrow> tally" where
  "dashboard_row row t =
     (case row of (ts, operator, run_id, sample_id, res, why) \<Rightarrow>
        if res = POS_tok then t\<lparr>pos_count := pos_count t + 1\<rparr>
        else if res = NEG_tok then t\<lparr>neg_count := neg_count t + 1\<rparr>
        else if res = IND_tok then classify_reason why (t\<lparr>ind_count := ind_count t + 1\<rparr>)
        else t)"

text \<open>The body of the loop of \<open>_generate_report\<close>.\<close>

definition report_row_step :: "report_row \<Rightarrow> tally \<Rightarrow> tally" where
  "report_row_step row t =
     (case row of (ts, operator, run_id, sample_id, res, why) \<Rightarrow>
        let t1 = (if operator \<noteq> [] then t\<lparr>operators := insert operator (operators t)\<rparr> else t);
            t2 = (if run_id \<noteq> [] then t1\<lparr>run_ids := insert run_id (run_ids t1)\<rparr> else t1);
            t3 = (if res = POS_tok then t2\<lparr>pos_count := pos_count t2 + 1\<rparr>
                  else if res = NEG_tok then t2\<lparr>neg_count := neg_count t2 + 1\<rparr>
                  else if res = IND_tok then t2\<lparr>ind_count := ind_count t2 + 1\<rparr>
                  else t2)
        in classify_reason why t3)"

definition rate :: "nat \<Rightarrow> nat \<Rightarrow> real" where
  "rate n tot = (if tot > 0 then real n / real tot * 100 else 0)"

record summary =
  s_total :: nat
  s_pos :: nat
  s_neg :: nat
  s_ind :: nat
  s_high_nil :: nat
  s_low_mitogen :: nat
  s_other :: nat
  s_pos_rate :: real
  s_neg_rate :: real
  s_ind_rate :: real
  s_runs :: "string set"
  s_ops :: "string set"

definition summary_of :: "nat \<Rightarrow> tally \<Rightarrow> summary" where
  "summary_of tot t =
     \<lparr> s_total = tot, s_pos = pos_count t, s_neg = neg_count t, s_ind = ind_count t,
       s_high_nil = ind_reasons t ''High Nil'', s_low_mitogen = ind_reasons t ''Low Mitogen'',
       s_other = ind_reasons t ''Other'',
       s_pos_rate = rate (pos_count t) tot, s_neg_rate = rate (neg_count t) tot,
       s_ind_rate = rate (ind_count t) tot, s_runs = run_ids t, s_ops = operators t \<rparr>"

text \<open>
  \<open>update_dashboard\<close>, from the two date strings that it derives from today's date and the
  configured number of days. The result is the numbers that its loop computes; all but the
  count of other indeterminate reasons are written to the labels.
\<close>

record dashboard_numbers =
  d_total :: nat
  d_pos :: nat
  d_neg :: nat
  d_ind :: nat
  d_high_nil :: nat
  d_low_mitogen :: nat
  d_other :: nat
  d_pos_rate :: real
  d_ind_rate :: real

definition dashboard_of :: "nat \<Rightarrow> tally \<Rightarrow> dashboard_numbers" where
  "dashboard_of tot t =
     \<lparr> d_total = tot, d_pos = pos_count t, d_neg = neg_count t, d_ind = ind_count t,
       d_high_nil = ind_reasons t ''High Nil'', d_low_mitogen = ind_reasons t ''Low Mitogen'',
       d_other = ind_reasons t ''Other'',
       d_pos_rate = rate (pos_count t) tot, d_ind_rate = rate (ind_count t) tot \<rparr>"

definition update_dashboard ::
  "string \<Rightarrow> string \<Rightarrow> app_state \<Rightarrow> dashboard_numbers option \<times> app_state" where
  "update_dashboard start_date_str end_date_str st =
     (case query_db_for_reports start_date_str end_date_str st of
        (Inl e, st1) \<Rightarrow> (None, st1)
      | (Inr data, st1) \<Rightarrow>
          (Some (dashboard_of (length data) (fold dashboard_row data empty_tally)), st1))"

text \<open>
  \<open>_generate_report\<close> up to the numbers that it hands to the writer of the PDF or Excel
  file; \<open>filepath\<close> is the answer of the file dialog, empty when the user cancels.
\<close>

definition generate_report ::
  "string \<Rightarrow> string \<Rightarrow> string \<Rightarrow> string \<Rightarrow> app_state \<Rightarrow> (exn + summary option) \<times> app_state" where
  "generate_report format_type start_date_str end_date_str filepath st =
     (case query_db_for_reports start_date_str end_date_str st of
        (Inl e, st1) \<Rightarrow> (Inl e, st1)
      | (Inr data, st1) \<Rightarrow>
          if data = []
          then (Inr None,
                messagebox ''showinfo'' ''No Data''
                  (''No records found between '' @ start_date_str @ '' and '' @ end_date_str @ ''.'') st1)
          else
            let tot = length data; t = fold report_row_step data empty_tally
            in if format_type \<noteq> ''pdf'' \<and> format_type \<noteq> ''excel'' then (Inr None, st1)
               else if filepath = [] then (Inr None, st1)
               else (Inr (Some (summary_of tot t)), st1))"


section \<open>strip and lower\<close>

text \<open>
  The characters that \<open>str.strip\<close> removes, each as its UTF-8 bytes: the ASCII controls
  0x09 to 0x0D and 0x1C to 0x1F, the space, and U+0085, U+00A0, U+1680, U+2000 to U+200A,
  U+2028, U+2029, U+202F, U+205F and U+3000. No encoding is the beginning of another, and
  none ends with a byte that ends a different character, so removing them at the two ends
  of the bytes is removing the characters at the two ends of the text.
\<close>

definition whitespace :: "string list" where
  "whitespace =
     [[CHR 0x09], [CHR 0x0A], [CHR 0x0B], [CHR 0x0C], [CHR 0x0D],
      [CHR 0x1C], [CHR 0x1D], [CHR 0x1E], [CHR 0x1F], [CHR 0x20],
      [CHR 0xC2, CHR 0x85], [CHR 0xC2, CHR 0xA0], [CHR 0xE1, CHR 0x9A, CHR 0x80],
      [CHR 0xE2, CHR 0x80, CHR 0x80], [CHR 0xE2, CHR 0x80, CHR 0x81], [CHR 0xE2, CHR 0x80, CHR 0x82],
      [CHR 0xE2, CHR 0x80, CHR 0x83], [CHR 0xE2, CHR 0x80, CHR 0x84], [CHR 0xE2, CHR 0x80, CHR 0x85],
      [CHR 0xE2, CHR 0x80, CHR 0x86], [CHR 0xE2, CHR 0x80, CHR 0x87], [CHR 0xE2, CHR 0x80, CHR 0x88],
      [CHR 0xE2, CHR 0x80, CHR 0x89], [CHR 0xE2, CHR 0x80, CHR 0x8A], [CHR 0xE2, CHR 0x80, CHR 0xA8],
      [CHR 0xE2, CHR 0x80, CHR 0xA9], [CHR 0xE2, CHR 0x80, CHR 0xAF], [CHR 0xE2, CHR 0x81, CHR 0x9F],
      [CHR 0xE3, CHR 0x80, CHR 0x80]]"


text \<open>
  \<open>strip_leading ws s\<close> removes from the front of \<open>s\<close> every leading occurrence of one of
  the byte sequences \<open>ws\<close>; a sequence found is not empty, so the recursive call drops all
  its bytes.
\<close>

fun strip_leading :: "string list \<Rightarrow> string \<Rightarrow> string" where
  "strip_leading ws [] = []"
| "strip_leading ws (c # cs) =
     (case find (\<lambda>w. w \<noteq> [] \<and> startswith (c # cs) w) ws of
        None \<Rightarrow> c # cs
      | Some w \<Rightarrow> strip_leading ws (drop (length w - 1) cs))"

definition lstrip :: "string \<Rightarrow> string" where
  "lstrip s = strip_leading whitespace s"

definition rstrip :: "string \<Rightarrow> string" where
  "rstrip s = rev (strip_leading (map rev whitespace) (rev s))"

definition strip :: "string \<Rightarrow> string" where
  "strip s = rstrip (lstrip s)"

text \<open>
  \<open>str.lower\<close> on the ASCII letters. It is used on header cells only, which are then
  compared with the five required names; no character beyond ASCII lowers to a text that
  makes a cell equal to one of these names.
\<close>

definition lower_char :: "char \<Rightarrow> char" where
  "lower_char c =
     (case map_of (zip ''ABCDEFGHIJKLMNOPQRSTUVWXYZ'' ''abcdefghijklmnopqrstuvwxyz'') c of
        None \<Rightarrow> c | Some d \<Rightarrow> d)"

definition lower :: "string \<Rightarrow> string" where
  "lower s = map lower_char s"

section \<open>Batch import\<close>

text \<open>
  The builtins that the batch import calls on cell values are parameters of the model:
  \<open>float\<close> on a string (\<open>None\<close> when it raises ValueError) and \<open>str\<close> on the number of a
  numeric spreadsheet cell. The properties below hold for every choice of the two.
\<close>

record env =
  py_float :: "string \<Rightarrow> real option"
  float_str :: "real \<Rightarrow> string"

record input_data =
  in_operator_id :: string
  in_run_id :: string
  in_sample_id :: string
  in_nil :: real
  in_tb1 :: real
  in_tb2 :: real
  in_mitogen :: real

record result_dict = classification +
  sample_id :: string
  operator_id :: string
  run_id :: string

datatype warning = DeltaCheck string string string

definition save_interpretation_to_db :: "result_dict \<Rightarrow> app_state \<Rightarrow> bool \<times> app_state" where
  "save_interpretation_to_db data st =
     (case insert_error st of
        Some e \<Rightarrow>
          (False,
           messagebox ''showerror'' ''Database Error''
             (''Failed to save result to history for '' @ sample_id data @ '':'' @ [CHR 0x0A] @ e)
             (print_stderr (''DB Save Error: '' @ e) st))
      | None \<Rightarrow>
          (True,
           st\<lparr>interpretations := interpretations st @
                [\<lparr> col_timestamp = clock st, col_operator_id = operator_id data,
                   col_sample_id = sample_id data, col_nil_value = input_nil data,
                   col_tb1_value = input_tb1 data, col_tb2_value = input_tb2 data,
                   col_mit_value = input_mit data, col_result = result data,
                   col_reason = reason data, col_run_id = run_id data \<rparr>]\<rparr>))"

text \<open>
  \<open>run_interpretation\<close> as the batch import calls it, with \<open>input_data\<close> given. The warnings
  of the delta check are collected and, on this path, not shown.
\<close>

definition delta_check :: "(string \<times> string) option \<Rightarrow> string \<Rightarrow> warning list" where
  "delta_check previous_db_result curr_res_val =
     (case previous_db_result of
        None \<Rightarrow> []
      | Some (prev_res_val, prev_ts) \<Rightarrow>
          if check_significant_change prev_res_val curr_res_val
          then [DeltaCheck prev_res_val prev_ts curr_res_val] else [])"

definition run_interpretation :: "input_data \<Rightarrow> app_state \<Rightarrow> (exn + result_dict option) \<times> app_state" where
  "run_interpretation inp st =
     (if is_processing st then (Inr None, st)
      else
        case get_previous_result (in_sample_id inp) (st\<lparr>is_processing := True\<rparr>) of
          (Inl e, st1) \<Rightarrow> (Inl e, st1\<lparr>is_processing := False\<rparr>)
        | (Inr previous_db_result, st1) \<Rightarrow>
            let results_dict =
                  classification.extend
                    (interpret_qft (in_nil inp) (in_tb1 inp) (in_tb2 inp) (in_mitogen inp))
                    (result_dict.fields (in_sample_id inp) (in_operator_id inp) (in_run_id inp));
                warnings = delta_check previous_db_result (result results_dict);
                st2 = log_event ''INTERPRET'' (operator_id results_dict) (run_id results_dict)
                        (sample_id results_dict) (result results_dict) (reason results_dict)
                        [fmt3 (input_nil results_dict), fmt3 (input_tb1 results_dict),
                         fmt3 (input_tb2 results_dict), fmt3 (input_mit results_dict)] st1;
                (save_successful, st3) = save_interpretation_to_db results_dict st2
            in (Inr (Some results_dict), st3\<lparr>is_processing := False\<rparr>))"


text \<open>
  The header map is a dictionary from column keys to positions, kept as an association
  list. The required headers are listed in sorted order, the order in which the error
  message names the missing ones.
\<close>

type_synonym header_map = "(string \<times> nat) list"

definition REQUIRED_BATCH_HEADERS :: "string list" where
  "REQUIRED_BATCH_HEADERS = [''mitogen'', ''nil'', ''sample id'', ''tb1'', ''tb2'']"

definition join_comma :: "string list \<Rightarrow> string" where
  "join_comma xs = (case xs of [] \<Rightarrow> [] | y # ys \<Rightarrow> y @ concat (map (\<lambda>z. '', '' @ z) ys))"

text \<open>The body of the loop of \<open>_parse_header\<close>, on the header map and the set of headers found.\<close>

fun parse_header_cell :: "nat \<times> string \<Rightarrow> header_map \<times> string set \<Rightarrow> header_map \<times> string set" where
  "parse_header_cell (i, header) (hm, found_headers) =
     (if header = ''sample id'' then (AList.update ''sample_id'' i hm, insert ''sample id'' found_headers)
      else if header = ''nil'' then (AList.update ''nil'' i hm, insert ''nil'' found_headers)
      else if header = ''tb1'' then (AList.update ''tb1'' i hm, insert ''tb1'' found_headers)
      else if header = ''tb2'' then (AList.update ''tb2'' i hm, insert ''tb2'' found_headers)
      else if header = ''mitogen'' then (AList.update ''mitogen'' i hm, insert ''mitogen'' found_headers)
      else (hm, found_headers))"

definition parse_header :: "('c \<Rightarrow> string) \<Rightarrow> 'c list \<Rightarrow> app_state \<Rightarrow> header_map option \<times> app_state" where
  "parse_header to_str header_row st =
     (let lowered_headers = map (\<lambda>h. lower (strip (to_str h))) header_row;
          (hm, found_headers) = fold parse_header_cell (enumerate 0 lowered_headers) ([], {});
          missing_headers = filter (\<lambda>h. h \<notin> found_headers) REQUIRED_BATCH_HEADERS
      in if missing_headers \<noteq> []
         then (None, messagebox ''showerror'' ''Header Error''
                       (''Missing headers:'' @ [CHR 0x0A] @ join_comma missing_headers) st)
         else (Some hm, st))"

definition cell_at :: "header_map \<Rightarrow> string \<Rightarrow> 'c list \<Rightarrow> exn + 'c" where
  "cell_at header_map key row_values =
     (case map_of header_map key of
        None \<Rightarrow> Inl KeyError
      | Some i \<Rightarrow> if i < length row_values then Inr (row_values ! i) else Inl IndexError)"

definition and_then :: "exn + 'a \<Rightarrow> ('a \<Rightarrow> exn + 'b) \<Rightarrow> exn + 'b" where
  "and_then m f = (case m of Inl e \<Rightarrow> Inl e | Inr x \<Rightarrow> f x)"

text \<open>The five cells of a row in the order in which \<open>_process_row_data\<close> reads them.\<close>

definition row_cells :: "header_map \<Rightarrow> 'c list \<Rightarrow> exn + ('c \<times> 'c \<times> 'c \<times> 'c \<times> 'c)" where
  "row_cells header_map row_values =
     and_then (cell_at header_map ''sample_id'' row_values) (\<lambda>a.
     and_then (cell_at header_map ''nil'' row_values) (\<lambda>b.
     and_then (cell_at header_map ''tb1'' row_values) (\<lambda>c.
     and_then (cell_at header_map ''tb2'' row_values) (\<lambda>d.
     and_then (cell_at header_map ''mitogen'' row_values) (\<lambda>e. Inr (a, b, c, d, e))))))"

definition floats4 :: "env \<Rightarrow> string \<Rightarrow> string \<Rightarrow> string \<Rightarrow> string \<Rightarrow> (real \<times> real \<times> real \<times> real) option" where
  "floats4 env nil_str tb1_str tb2_str mit_str =
     Option.bind (py_float env nil_str) (\<lambda>nil_val.
     Option.bind (py_float env tb1_str) (\<lambda>tb1_val.
     Option.bind (py_float env tb2_str) (\<lambda>tb2_val.
     Option.bind (py_float env mit_str) (\<lambda>mit_val.
       Some (nil_val, tb1_val, tb2_val, mit_val)))))"

text \<open>
  \<open>_process_row_data\<close>. A position beyond the last cell raises IndexError, a conversion
  that fails raises ValueError; both handlers print a line to stderr and return \<open>None\<close>.
  The handler for any other exception prints and calls \<open>log_event\<close> with an error event;
  the text of the exception in its two lines is left out.
\<close>

definition process_row_data ::
  "env \<Rightarrow> ('c \<Rightarrow> string) \<Rightarrow> 'c list \<Rightarrow> header_map \<Rightarrow> string \<Rightarrow> string \<Rightarrow> nat \<Rightarrow> app_state
     \<Rightarrow> result_dict option \<times> app_state" where
  "process_row_data env to_str row_values header_map op_id run row_num st =
     (case row_cells header_map row_values of
        Inr (a, b, c, d, e) \<Rightarrow>
          (let sid = strip (to_str a); nil_str = strip (to_str b); tb1_str = strip (to_str c);
               tb2_str = strip (to_str d); mit_str = strip (to_str e)
           in if sid = []
              then (None, print_stderr (''Skipping row '' @ str_nat row_num @ '': Missing Sample ID.'') st)
              else
                (case floats4 env nil_str tb1_str tb2_str mit_str of
                   None \<Rightarrow>
                     (None, print_stderr (''Skipping row '' @ str_nat row_num @ '' (Sample: '' @ sid
                                           @ ''): Invalid numeric data.'') st)
                 | Some (nil_val, tb1_val, tb2_val, mit_val) \<Rightarrow>
                     (case run_interpretation
                             \<lparr> in_operator_id = op_id, in_run_id = run, in_sample_id = sid,
                               in_nil = nil_val, in_tb1 = tb1_val, in_tb2 = tb2_val,
                               in_mitogen = mit_val \<rparr> st of
                        (Inr result_dict, st1) \<Rightarrow> (result_dict, st1)
                      | (Inl err, st1) \<Rightarrow>
                          (None, log_event ''ERROR'' ''System'' ''N/A'' sid ''N/A'' ''N/A''
                                   [''Batch row processing error'']
                                   (print_stderr (''Error processing row '' @ str_nat row_num) st1)))))
      | Inl err \<Rightarrow>
          (if err = IndexError
           then (None, print_stderr (''Skipping row '' @ str_nat row_num @ '': Too few columns.'') st)
           else (None, log_event ''ERROR'' ''System'' ''N/A'' ''N/A'' ''N/A'' ''N/A''
                         [''Batch row processing error'']
                         (print_stderr (''Error processing row '' @ str_nat row_num) st))))"

text \<open>
  The part of the loop body of \<open>_process_csv\<close> that handles a data row: a row without a
  non-empty cell is passed over, any other row is processed or counted as skipped.
\<close>

fun csv_data_row ::
  "env \<Rightarrow> header_map \<Rightarrow> string \<Rightarrow> string \<Rightarrow> nat \<Rightarrow> string list
     \<Rightarrow> result_dict list \<times> nat \<Rightarrow> app_state \<Rightarrow> (result_dict list \<times> nat) \<times> app_state" where
  "csv_data_row env header_map op_id run row_num row (processed_results, skipped) st =
     (if \<not> list_ex (\<lambda>c. c \<noteq> []) row then ((processed_results, skipped), st)
      else
        (case process_row_data env (\<lambda>s. s) row header_map op_id run row_num st of
           (Some r, st1) \<Rightarrow> ((processed_results @ [r], skipped), st1)
         | (None, st1) \<Rightarrow> ((processed_results, skipped + 1), st1)))"

text \<open>
  The loop of \<open>_process_csv\<close> over the rows that \<open>csv.reader\<close> yields, each a list of cells
  (the empty list for an empty line), with the loop variables \<open>row_num\<close>, \<open>header_map\<close>,
  \<open>processed_results\<close> and \<open>skipped\<close>. A dictionary counts as true when it is not empty.
\<close>

fun csv_rows ::
  "env \<Rightarrow> string \<Rightarrow> string \<Rightarrow> string list list \<Rightarrow> nat \<Rightarrow> header_map option
     \<Rightarrow> result_dict list \<times> nat \<Rightarrow> app_state \<Rightarrow> (result_dict list \<times> nat \<times> nat) \<times> app_state" where
  "csv_rows env op_id run [] row_num header_map acc st =
     ((fst acc, snd acc, nat (max 0 (int row_num - 1))), st)"
| "csv_rows env op_id run (row # rest) row_num0 header_map0 acc st =
     (let row_num = row_num0 + 1;
          (header_map, st1) = (if row_num = 1 then parse_header (\<lambda>s. s) row st else (header_map0, st))
      in if header_map = None \<and> row_num = 1 then (([], 0, 0), st1)
         else if header_map \<noteq> None \<and> header_map \<noteq> Some [] \<and> row_num > 1
         then (case csv_data_row env (the header_map) op_id run row_num row acc st1 of
                 (acc1, st2) \<Rightarrow> csv_rows env op_id run rest row_num header_map acc1 st2)
         else csv_rows env op_id run rest row_num header_map acc st1)"

definition process_csv ::
  "env \<Rightarrow> string list list \<Rightarrow> string \<Rightarrow> string \<Rightarrow> app_state
     \<Rightarrow> (result_dict list \<times> nat \<times> nat) \<times> app_state" where
  "process_csv env rows op_id run st = csv_rows env op_id run rows 0 None ([], 0) st"

text \<open>
  \<open>_process_excel\<close> over the rows of the active sheet. The value of a cell is absent, a text
  or a number; an absent value is replaced by the empty string before anything else.
\<close>

datatype xl_value = XText string | XNumber real

definition py_str :: "env \<Rightarrow> xl_value \<Rightarrow> string" where
  "py_str env v = (case v of XText s \<Rightarrow> s | XNumber x \<Rightarrow> float_str env x)"

definition cell_values :: "xl_value option list \<Rightarrow> xl_value list" where
  "cell_values row = map (\<lambda>cell. case cell of None \<Rightarrow> XText [] | Some v \<Rightarrow> v) row"

fun excel_data_row ::
  "env \<Rightarrow> header_map \<Rightarrow> string \<Rightarrow> string \<Rightarrow> nat \<Rightarrow> xl_value list
     \<Rightarrow> result_dict list \<times> nat \<Rightarrow> app_state \<Rightarrow> (result_dict list \<times> nat) \<times> app_state" where
  "excel_data_row env header_map op_id run row_num row_values (processed_results, skipped) st =
     (if \<not> list_ex (\<lambda>v. strip (py_str env v) \<noteq> []) row_values then ((processed_results, skipped), st)
      else
        (case process_row_data env (py_str env) row_values header_map op_id run row_num st of
           (Some r, st1) \<Rightarrow> ((processed_results @ [r], skipped), st1)
         | (None, st1) \<Rightarrow> ((processed_results, skipped + 1), st1)))"

fun excel_rows ::
  "env \<Rightarrow> string \<Rightarrow> string \<Rightarrow> xl_value option list list \<Rightarrow> nat \<Rightarrow> header_map option
     \<Rightarrow> result_dict list \<times> nat \<Rightarrow> app_state \<Rightarrow> (result_dict list \<times> nat \<times> nat) \<times> app_state" where
  "excel_rows env op_id run [] row_num header_map acc st =
     ((fst acc, snd acc, nat (max 0 (int row_num - 1))), st)"
| "excel_rows env op_id run (row # rest) row_num0 header_map0 acc st =
     (let row_num = row_num0 + 1;
          row_values = cell_values row;
          (header_map, st1) = (if row_num = 1 then parse_header (py_str env) row_values st else (header_map0, st))
      in if header_map = None \<and> row_num = 1 then (([], 0, 0), st1)
         else if header_map \<noteq> None \<and> header_map \<noteq> Some [] \<and> row_num > 1
         then (case excel_data_row env (the header_map) op_id run row_num row_values acc st1 of
                 (acc1, st2) \<Rightarrow> excel_rows env op_id run rest row_num header_map acc1 st2)
         else excel_rows env op_id run rest row_num header_map acc st1)"

definition process_excel ::
  "env \<Rightarrow> xl_value option list list \<Rightarrow> string \<Rightarrow> string \<Rightarrow> app_state
     \<Rightarrow> (result_dict list \<times> nat \<times> nat) \<times> app_state" where
  "process_excel env rows op_id run st = excel_rows env op_id run rows 0 None ([], 0) st"

text \<open>An instance of \<open>float\<close> for plain decimal literals, used to run the model on examples.\<close>

definition decimal_literal :: "string \<Rightarrow> real option" where
  "decimal_literal s =
     (let body = (case s of c # r \<Rightarrow> if c = CHR ''-'' \<or> c = CHR ''+'' then r else s | [] \<Rightarrow> s);
          sgn = (case s of c # r \<Rightarrow> if c = CHR ''-'' then - 1 else 1 | [] \<Rightarrow> 1);
          ip = takeWhile is_digit body;
          rest = dropWhile is_digit body;
          val = (\<lambda>ds. fold (\<lambda>c n. 10 * n + digit_val c) ds 0)
      in case rest of
           [] \<Rightarrow> if ip = [] then None else Some (sgn * real (val ip))
         | c # fp \<Rightarrow>
             if c = CHR ''.'' \<and> list_all is_digit fp \<and> (ip \<noteq> [] \<or> fp \<noteq> [])
             then Some (sgn * (real (val ip) + real (val fp) / 10 ^ length fp))
             else None)"

definition example_env :: env where
  "example_env = \<lparr> py_float = decimal_literal, float_str = (\<lambda>x. fmt3 x) \<rparr>"


section \<open>Batch outcome, in the words of the specification\<close>

text \<open>
  The three parts of the outcome of a batch import, and the sorting of data rows that the
  specification describes: a row is fully blank when every cell is the empty string; a row
  is rejected when a mapped column lies beyond its last cell, when its Sample ID is blank
  after trimming, or when one of its four values does not parse as a number.
\<close>

definition batch_processed :: "(result_dict list \<times> nat \<times> nat) \<times> app_state \<Rightarrow> result_dict list" where
  "batch_processed out = fst (fst out)"

definition batch_skipped :: "(result_dict list \<times> nat \<times> nat) \<times> app_state \<Rightarrow> nat" where
  "batch_skipped out = fst (snd (fst out))"

definition batch_total :: "(result_dict list \<times> nat \<times> nat) \<times> app_state \<Rightarrow> nat" where
  "batch_total out = snd (snd (fst out))"

definition column_keys :: "string list" where
  "column_keys = [''sample_id'', ''nil'', ''tb1'', ''tb2'', ''mitogen'']"

definition header_complete :: "header_map \<Rightarrow> bool" where
  "header_complete hm = list_all (\<lambda>k. map_of hm k \<noteq> None) column_keys"

definition fully_blank :: "string list \<Rightarrow> bool" where
  "fully_blank row = list_all (\<lambda>c. c = []) row"

definition column_of :: "header_map \<Rightarrow> string \<Rightarrow> nat" where
  "column_of hm k = (case map_of hm k of None \<Rightarrow> 0 | Some i \<Rightarrow> i)"

definition too_few_columns :: "header_map \<Rightarrow> 'c list \<Rightarrow> bool" where
  "too_few_columns hm row = list_ex (\<lambda>k. length row \<le> column_of hm k) column_keys"

definition cell_text :: "header_map \<Rightarrow> string \<Rightarrow> string list \<Rightarrow> string" where
  "cell_text hm k row = strip (row ! column_of hm k)"

definition blank_sample_id :: "header_map \<Rightarrow> string list \<Rightarrow> bool" where
  "blank_sample_id hm row = (cell_text hm ''sample_id'' row = [])"

definition non_numeric :: "env \<Rightarrow> header_map \<Rightarrow> string list \<Rightarrow> bool" where
  "non_numeric env hm row =
     list_ex (\<lambda>k. py_float env (cell_text hm k row) = None) [''nil'', ''tb1'', ''tb2'', ''mitogen'']"

definition rejected :: "env \<Rightarrow> header_map \<Rightarrow> string list \<Rightarrow> bool" where
  "rejected env hm row =
     (too_few_columns hm row \<or> blank_sample_id hm row \<or> non_numeric env hm row)"

text \<open>A string of whitespace characters only (the empty string included).\<close>

fun only_whitespace :: "string \<Rightarrow> bool" where
  "only_whitespace [] = True"
| "only_whitespace (c # cs) =
     (case find (\<lambda>w. w \<noteq> [] \<and> startswith (c # cs) w) whitespace of
        None \<Rightarrow> False
      | Some w \<Rightarrow> only_whitespace (drop (length w - 1) cs))"

definition blank_cell :: "xl_value option \<Rightarrow> bool" where
  "blank_cell cell =
     (case cell of None \<Rightarrow> True | Some (XText s) \<Rightarrow> only_whitespace s | Some (XNumber x) \<Rightarrow> False)"

text \<open>What the loop of \<open>_parse_header\<close> maintains: a header found has its key in the map.\<close>

definition header_inv :: "header_map \<times> string set \<Rightarrow> bool" where
  "header_inv acc =
     ((''sample id'' \<in> snd acc \<longrightarrow> map_of (fst acc) ''sample_id'' \<noteq> None)
      \<and> (''nil'' \<in> snd acc \<longrightarrow> map_of (fst acc) ''nil'' \<noteq> None)
      \<and> (''tb1'' \<in> snd acc \<longrightarrow> map_of (fst acc) ''tb1'' \<noteq> None)
      \<and> (''tb2'' \<in> snd acc \<longrightarrow> map_of (fst acc) ''tb2'' \<noteq> None)
      \<and> (''mitogen'' \<in> snd acc \<longrightarrow> map_of (fst acc) ''mitogen'' \<noteq> None))"


section \<open>Example inputs\<close>

text \<open>
  A history with one negative record, the same history behind a database whose reads fail,
  and the batch table of five data rows: row 3 has a blank Sample ID and row 4 a TB2 value
  that is not a number.
\<close>

definition example_row :: interpretation_row where
  "example_row =
     \<lparr> col_timestamp = ''2024-01-05 10:00:00'', col_operator_id = ''op1'', col_sample_id = ''S1'',
       col_nil_value = 0.1, col_tb1_value = 0.2, col_tb2_value = 0.3, col_mit_value = 2,
       col_result = NEG_tok, col_reason = ''TB Antigens negative, Mitogen control valid'',
       col_run_id = ''run1'' \<rparr>"

definition example_state :: app_state where
  "example_state =
     \<lparr> interpretations = [example_row], select_error = None, insert_error = None,
       clock = ''2024-01-06 09:30:00'', dialogs = [], stderr = [], csv_log = [],
       is_processing = False \<rparr>"

definition failing_state :: app_state where
  "failing_state = example_state\<lparr>select_error := Some ''disk I/O error''\<rparr>"

definition example_header :: "string list" where
  "example_header = [''Sample ID'', ''Nil'', ''TB1'', ''TB2'', ''Mitogen'']"

definition example_rows :: "string list list" where
  "example_rows =
     [[''S1'', ''0.10'', ''1.50'', ''0.20'', ''5.0''],
      [''S2'', ''0.10'', ''0.20'', ''0.30'', ''2.0''],
      ['''', ''0.10'', ''0.20'', ''0.30'', ''2.0''],
      [''S4'', ''0.10'', ''0.20'', ''abc'', ''2.0''],
      [''S5'', ''9.50'', ''10.0'', ''11.0'', ''15.0'']]"


definition neg_report_row :: report_row where
  "neg_report_row = (''2024-01-05 10:00:00'', ''op1'', ''run1'', ''S1'', NEG_tok,
                     ''TB Antigens negative, Mitogen control valid'')"


definition example_input :: input_data where
  "example_input =
     \<lparr> in_operator_id = ''op1'', in_run_id = ''run2'', in_sample_id = ''S1'',
       in_nil = 0.1, in_tb1 = 1.5, in_tb2 = 0.2, in_mitogen = 5 \<rparr>"


text \<open>
  The header map of the example header, a CSV row of whitespace cells with one empty cell,
  and the same row as spreadsheet cells with one cell without a value.
\<close>

definition example_map :: header_map where
  "example_map = [(''sample_id'', 0), (''nil'', 1), (''tb1'', 2), (''tb2'', 3), (''mitogen'', 4)]"

definition space_row :: "string list" where
  "space_row = ['' '', '' '', [CHR 0x09], [], '' '']"

definition space_xrow :: "xl_value option list" where
  "space_xrow = [Some (XText '' ''), None, Some (XText [CHR 0x09]), Some (XText []), Some (XText '' '')]"


section \<open>Properties of the decision rule\<close>

lemma startswith_append: "startswith (p @ s) p"
  by (induction p) simp_all

lemma str_in_append: "str_in sub s \<Longrightarrow> str_in sub (pre @ s)"
  by (induction pre) simp_all

lemma str_in_prefix: "str_in sub (sub @ s)"
  by (cases "sub @ s") (simp_all add: startswith_append del: startswith.simps, metis startswith_append)

lemma tokens_distinct:
  "POS_tok \<noteq> NEG_tok" "POS_tok \<noteq> IND_tok" "NEG_tok \<noteq> IND_tok"
  "NEG_tok \<noteq> POS_tok" "IND_tok \<noteq> POS_tok" "IND_tok \<noteq> NEG_tok"
  by (simp_all add: POS_tok_def NEG_tok_def IND_tok_def dagger_def)

text \<open>The delta check in closed form: both strings are tokens and they differ.\<close>

lemma check_significant_change_iff:
  "check_significant_change p c \<longleftrightarrow> p \<noteq> c \<and> p \<in> canonical_tokens \<and> c \<in> canonical_tokens"
proof (cases "p = c")
  case True
  then show ?thesis by (simp add: check_significant_change_def)
next
  case False
  have "check_significant_change p c \<longleftrightarrow>
        ((p, c) \<in> significant_pairs \<or> (c, p) \<in> significant_pairs
         \<or> (p = IND_tok \<and> c \<in> {POS_tok, NEG_tok}) \<or> (c = IND_tok \<and> p \<in> {POS_tok, NEG_tok}))"
    using False unfolding check_significant_change_def by presburger
  also have "\<dots> \<longleftrightarrow> p \<in> canonical_tokens \<and> c \<in> canonical_tokens"
    using False unfolding significant_pairs_def canonical_tokens_def by blast
  finally show ?thesis using False by blast
qed

text \<open>
  C3. Whenever the nil control is above 8.0, the result is the indeterminate token and the
  reason contains "High Nil", whatever the two antigen values and the mitogen value are.
\<close>

theorem high_nil_indeterminate:
  assumes "nil > 8.0"
  shows "result (interpret_qft nil tb1 tb2 mit) = IND_tok
       \<and> reason (interpret_qft nil tb1 tb2 mit) = ''High Nil Control ('' @ fmt3 nil @ '' > 8.0 IU/mL)''
       \<and> str_in ''High Nil'' (reason (interpret_qft nil tb1 tb2 mit))"
proof -
  have r: "reason (interpret_qft nil tb1 tb2 mit) = ''High Nil'' @ ('' Control ('' @ fmt3 nil @ '' > 8.0 IU/mL)'')"
    using assms by (simp add: interpret_qft_def Let_def)
  have "str_in ''High Nil'' (reason (interpret_qft nil tb1 tb2 mit))"
    unfolding r by (rule str_in_prefix)
  moreover have "result (interpret_qft nil tb1 tb2 mit) = IND_tok"
    using assms by (simp add: interpret_qft_def Let_def)
  ultimately show ?thesis using r by simp
qed

theorem high_nil_indeterminate_witness:
  "(9.5::real) > 8.0
   \<and> result (interpret_qft 9.5 10 11 15) = IND_tok
   \<and> str_in ''High Nil'' (reason (interpret_qft 9.5 10 11 15))"
  using high_nil_indeterminate [of "9.5" 10 11 15] by simp



text \<open>
  C5. On the three result tokens the delta check is inequality: for previous and current
  results taken from the three tokens, \<open>check_significant_change\<close> is true exactly when
  the two differ.
\<close>

theorem significant_change_is_inequality:
  assumes "prev_res \<in> canonical_tokens" and "curr_res \<in> canonical_tokens"
  shows "check_significant_change prev_res curr_res = (prev_res \<noteq> curr_res)"
  using assms check_significant_change_iff [of prev_res curr_res] by blast

theorem significant_change_is_inequality_witness:
  "IND_tok \<in> canonical_tokens \<and> NEG_tok \<in> canonical_tokens
   \<and> check_significant_change IND_tok NEG_tok \<and> IND_tok \<noteq> NEG_tok"
proof -
  have a: "IND_tok \<in> canonical_tokens" "NEG_tok \<in> canonical_tokens"
    unfolding canonical_tokens_def by blast+
  show ?thesis
    using a significant_change_is_inequality [OF a] tokens_distinct(6) by blast
qed

text \<open>
  C9. The delta check answers true only for two different strings that are both among the
  three tokens. Two different strings of which one is not a token are not flagged, and
  equal strings are not flagged.
\<close>

theorem significant_change_only_on_tokens:
  "(check_significant_change prev_res curr_res
      \<longrightarrow> prev_res \<in> canonical_tokens \<and> curr_res \<in> canonical_tokens \<and> prev_res \<noteq> curr_res)
   \<and> (prev_res \<noteq> curr_res \<and> (prev_res \<notin> canonical_tokens \<or> curr_res \<notin> canonical_tokens)
      \<longrightarrow> \<not> check_significant_change prev_res curr_res)
   \<and> \<not> check_significant_change prev_res prev_res"
  using check_significant_change_iff [of prev_res curr_res]
        check_significant_change_iff [of prev_res prev_res]
  by blast

theorem significant_change_only_on_tokens_witness:
  "''Error'' \<noteq> NEG_tok \<and> ''Error'' \<notin> canonical_tokens
   \<and> \<not> check_significant_change ''Error'' NEG_tok
   \<and> \<not> check_significant_change ''Error'' ''Error''
   \<and> check_significant_change NEG_tok POS_tok
   \<and> NEG_tok \<in> canonical_tokens \<and> POS_tok \<in> canonical_tokens \<and> NEG_tok \<noteq> POS_tok"
proof -
  have a: "''Error'' \<noteq> NEG_tok" "''Error'' \<notin> canonical_tokens"
    by (simp_all add: canonical_tokens_def POS_tok_def NEG_tok_def IND_tok_def dagger_def)
  have b: "check_significant_change NEG_tok POS_tok"
    unfolding check_significant_change_iff canonical_tokens_def using tokens_distinct(4) by blast
  show ?thesis
    using a b significant_change_only_on_tokens [of "''Error''" NEG_tok]
          significant_change_only_on_tokens [of NEG_tok POS_tok]
    by blast
qed


section \<open>Dashboard, report and persistence\<close>

lemma select_example:
  "select_for_report ''2024-01-01 00:00:00'' ''2024-01-07 23:59:59'' [example_row] = [neg_report_row]"
  by (simp add: select_for_report_def example_row_def neg_report_row_def)

lemma strptime_examples:
  "strptime_ymd ''2024-01-01'' = Inr (2024, 1, 1)"
  "strptime_ymd ''2024-01-07'' = Inr (2024, 1, 7)"
  by (simp_all add: strptime_ymd_def is_digit_def digit_val_def days_in_month_def is_leap_def)

lemma strftime_examples:
  "strftime_ymd (2024, 1, 1) '' 00:00:00'' = ''2024-01-01 00:00:00''"
  "strftime_ymd (2024, 1, 7) '' 23:59:59'' = ''2024-01-07 23:59:59''"
  by (simp_all add: strftime_ymd_def zfill_def str_nat.simps digit_char_def)

lemma example_state_fields:
  "select_error example_state = None" "interpretations example_state = [example_row]"
  "\<not> is_processing example_state"
  by (simp_all add: example_state_def)

lemma query_example:
  "query_db_for_reports ''2024-01-01'' ''2024-01-07'' example_state = (Inr [neg_report_row], example_state)"
  by (simp only: query_db_for_reports_def strptime_examples strftime_examples select_example
        example_state_fields sum.case option.case)

text \<open>
  C1. Dashboard and summary report are to give the same numbers for the same range and the
  same records, with the indeterminate reasons counted over indeterminate records only.
  On the history with one negative record both are run on the range that holds it: the
  dashboard counts no reason, the report counts the reason of the negative record as
  "Other". The loop of the report classifies the reason of every record, that of the
  dashboard only the reason of an indeterminate record.
\<close>

theorem report_counts_reason_of_negative_record:
  "update_dashboard ''2024-01-01'' ''2024-01-07'' example_state
     = (Some \<lparr> d_total = 1, d_pos = 0, d_neg = 1, d_ind = 0, d_high_nil = 0, d_low_mitogen = 0,
               d_other = 0, d_pos_rate = 0, d_ind_rate = 0 \<rparr>, example_state)
   \<and> generate_report ''pdf'' ''2024-01-01'' ''2024-01-07'' ''report.pdf'' example_state
     = (Inr (Some \<lparr> s_total = 1, s_pos = 0, s_neg = 1, s_ind = 0, s_high_nil = 0, s_low_mitogen = 0,
               s_other = 1, s_pos_rate = 0, s_neg_rate = 100, s_ind_rate = 0,
               s_runs = {''run1''}, s_ops = {''op1''} \<rparr>), example_state)"
  by (simp add: update_dashboard_def generate_report_def query_example)
     (simp add: neg_report_row_def dashboard_row_def report_row_step_def empty_tally_def
        tokens_distinct classify_reason_def count_reason_def summary_of_def dashboard_of_def rate_def)








lemma query_invalid_date:
  assumes "isl (strptime_ymd start_date_str) \<or> isl (strptime_ymd end_date_str)"
  shows "query_db_for_reports start_date_str end_date_str st
         = (Inr [], messagebox ''showerror'' ''Date Error''
                      ''Invalid date format. Please use YYYY-MM-DD.'' st)"
proof (cases "strptime_ymd start_date_str")
  case (Inl e)
  then show ?thesis by (simp add: query_db_for_reports_def)
next
  case (Inr d1)
  then have "isl (strptime_ymd end_date_str)" using assms by simp
  then obtain e where "strptime_ymd end_date_str = Inl e" by (cases "strptime_ymd end_date_str") simp_all
  then show ?thesis using Inr by (simp add: query_db_for_reports_def)
qed

text \<open>
  C7, as amended. When one of the two date strings does not parse, \<open>query_db_for_reports\<close>
  shows a "Date Error" dialog and returns the empty list, as for a range without records.
  \<open>_generate_report\<close> then shows "No Data" and returns without a report, and
  \<open>update_dashboard\<close> computes the numbers of an empty history.
\<close>

theorem invalid_date_gives_empty_result:
  assumes "isl (strptime_ymd start_date_str) \<or> isl (strptime_ymd end_date_str)"
  shows "query_db_for_reports start_date_str end_date_str st
           = (Inr [], messagebox ''showerror'' ''Date Error''
                        ''Invalid date format. Please use YYYY-MM-DD.'' st)
       \<and> generate_report format_type start_date_str end_date_str filepath st
           = (Inr None,
              messagebox ''showinfo'' ''No Data''
                (''No records found between '' @ start_date_str @ '' and '' @ end_date_str @ ''.'')
                (messagebox ''showerror'' ''Date Error''
                   ''Invalid date format. Please use YYYY-MM-DD.'' st))
       \<and> fst (update_dashboard start_date_str end_date_str st) = Some (dashboard_of 0 empty_tally)"
proof -
  note q = query_invalid_date [OF assms, of st]
  have g: "generate_report format_type start_date_str end_date_str filepath st
           = (Inr None,
              messagebox ''showinfo'' ''No Data''
                (''No records found between '' @ start_date_str @ '' and '' @ end_date_str @ ''.'')
                (messagebox ''showerror'' ''Date Error''
                   ''Invalid date format. Please use YYYY-MM-DD.'' st))"
    unfolding generate_report_def q by simp
  have u: "fst (update_dashboard start_date_str end_date_str st) = Some (dashboard_of 0 empty_tally)"
    unfolding update_dashboard_def q by simp
  show ?thesis by (intro conjI q g u)
qed

lemma strptime_feb30: "strptime_ymd ''2024-02-30'' = Inl ValueError"
  by (simp add: strptime_ymd_def is_digit_def digit_val_def days_in_month_def is_leap_def)

theorem invalid_date_gives_empty_result_witness:
  "isl (strptime_ymd ''2024-02-30'')
   \<and> fst (query_db_for_reports ''2024-02-30'' ''2024-03-01'' example_state) = Inr []
   \<and> dialogs (snd (query_db_for_reports ''2024-02-30'' ''2024-03-01'' example_state))
       = [(''showerror'', ''Date Error'', ''Invalid date format. Please use YYYY-MM-DD.'')]
   \<and> fst (generate_report ''pdf'' ''2024-02-30'' ''2024-03-01'' ''report.pdf'' example_state) = Inr None"
proof -
  have h: "isl (strptime_ymd ''2024-02-30'') \<or> isl (strptime_ymd ''2024-03-01'')"
    by (simp add: strptime_feb30)
  have d: "dialogs example_state = []" by (simp add: example_state_def)
  show ?thesis
    using invalid_date_gives_empty_result [OF h, of example_state "''pdf''" "''report.pdf''"] d
    by (simp add: strptime_feb30 messagebox_def)
qed

text \<open>
  The claim as stated has the call fail with an error instead of completing. For the
  30th of February the query completes with the empty list, the report call completes,
  and the dashboard shows a total of 0.
\<close>

theorem date_error_not_raised_counterexample:
  "isl (strptime_ymd ''2024-02-30'')
   \<and> \<not> isl (fst (query_db_for_reports ''2024-02-30'' ''2024-03-01'' example_state))
   \<and> fst (query_db_for_reports ''2024-02-30'' ''2024-03-01'' example_state) = Inr []
   \<and> \<not> isl (fst (generate_report ''pdf'' ''2024-02-30'' ''2024-03-01'' ''report.pdf'' example_state))
   \<and> d_total (the (fst (update_dashboard ''2024-02-30'' ''2024-03-01'' example_state))) = 0"
  by (simp add: query_db_for_reports_def generate_report_def update_dashboard_def strptime_feb30
        dashboard_of_def)

lemma log_event_error: "log_event ''ERROR'' a b c d e f st = st"
  by (simp add: log_event_def)

lemma get_previous_result_eq:
  "get_previous_result sid st
   = (Inr (case select_error st of Some e \<Rightarrow> None | None \<Rightarrow> select_latest sid (interpretations st)), st)"
  by (simp add: get_previous_result_def log_event_error split: option.splits)

lemma run_interpretation_idle:
  assumes "\<not> is_processing st"
  shows "\<exists>r st'. run_interpretation inp st = (Inr (Some r), st') \<and> \<not> is_processing st'"
  using assms
  by (simp add: run_interpretation_def get_previous_result_eq Let_def split: prod.splits)

text \<open>
  C8, as amended. When the read of the latest record fails, \<open>get_previous_result\<close> catches
  the error and returns \<open>None\<close>, the answer for a sample without history, and leaves no trace:
  no dialog, no line on stderr, no row in the log (\<open>log_event\<close> drops every event that is
  not an interpretation). The delta check then gives no warning, and the interpretation
  returns what it returns on an empty history.
\<close>

theorem failed_read_is_swallowed:
  assumes "select_error st = Some e"
  shows "get_previous_result sid st = (Inr None, st)
       \<and> delta_check None curr_res_val = []
       \<and> (\<not> is_processing st \<longrightarrow>
            fst (run_interpretation inp st)
            = fst (run_interpretation inp (st\<lparr>select_error := None, interpretations := []\<rparr>)))"
proof -
  have a: "get_previous_result sid st = (Inr None, st)"
    using assms by (simp add: get_previous_result_eq)
  have b: "delta_check None curr_res_val = []"
    by (simp add: delta_check_def)
  have c: "\<not> is_processing st \<longrightarrow>
            fst (run_interpretation inp st)
            = fst (run_interpretation inp (st\<lparr>select_error := None, interpretations := []\<rparr>))"
    by (simp add: run_interpretation_def get_previous_result_eq Let_def split: prod.splits)
  show ?thesis by (intro conjI a b c)
qed

theorem failed_read_is_swallowed_witness:
  "select_error failing_state = Some ''disk I/O error''
   \<and> get_previous_result ''S1'' failing_state = (Inr None, failing_state)
   \<and> fst (get_previous_result ''S1'' example_state) = Inr (Some (NEG_tok, ''2024-01-05 10:00:00''))
   \<and> \<not> is_processing failing_state
   \<and> fst (run_interpretation example_input failing_state)
       = fst (run_interpretation example_input
                (failing_state\<lparr>select_error := None, interpretations := []\<rparr>))"
proof -
  have h: "select_error failing_state = Some ''disk I/O error''"
    by (simp add: failing_state_def)
  have p: "\<not> is_processing failing_state"
    by (simp add: failing_state_def example_state_def)
  have w: "fst (get_previous_result ''S1'' example_state) = Inr (Some (NEG_tok, ''2024-01-05 10:00:00''))"
    by (simp add: get_previous_result_def example_state_def select_latest_def example_row_def)
  show ?thesis
    using h p w failed_read_is_swallowed [OF h, of "''S1''" "[]" example_input] by blast
qed

text \<open>
  The claim as stated has the error reach the caller. With reads failing with "disk I/O
  error", the caller gets \<open>None\<close> and an unchanged state.
\<close>

theorem read_error_not_surfaced_counterexample:
  "select_error failing_state = Some ''disk I/O error''
   \<and> fst (get_previous_result ''S1'' failing_state) \<noteq> Inl (Sqlite3Error ''disk I/O error'')
   \<and> fst (get_previous_result ''S1'' failing_state) = Inr None
   \<and> snd (get_previous_result ''S1'' failing_state) = failing_state"
  by (simp add: get_previous_result_eq) (simp add: failing_state_def)


section \<open>Properties of the batch import\<close>

lemma header_inv_step: "header_inv acc \<Longrightarrow> header_inv (parse_header_cell ih acc)"
  by (cases ih; cases acc) (simp add: header_inv_def update_conv')

lemma header_inv_fold: "header_inv acc \<Longrightarrow> header_inv (fold parse_header_cell xs acc)"
  by (induction xs arbitrary: acc) (simp_all add: header_inv_step)

lemma header_inv_init: "header_inv ([], {})"
  by (simp add: header_inv_def)

lemma parse_header_Some:
  assumes "fst (parse_header to_str header_row st) = Some hm"
  shows "header_complete hm \<and> parse_header to_str header_row st = (Some hm, st)"
proof -
  let ?acc = "fold parse_header_cell (enumerate 0 (map (\<lambda>h. lower (strip (to_str h))) header_row)) ([], {})"
  have inv: "header_inv ?acc"
    by (rule header_inv_fold [OF header_inv_init])
  obtain m found where acc: "?acc = (m, found)" by (cases ?acc)
  have none: "filter (\<lambda>h. h \<notin> found) REQUIRED_BATCH_HEADERS = []" and hm: "hm = m"
    using assms unfolding parse_header_def Let_def acc
    by (simp_all split: if_splits)
  have "\<forall>h \<in> set REQUIRED_BATCH_HEADERS. h \<in> found"
    using none by (simp add: filter_empty_conv)
  then have "header_complete m"
    using inv unfolding acc header_inv_def header_complete_def column_keys_def REQUIRED_BATCH_HEADERS_def
    by simp
  moreover have "parse_header to_str header_row st = (Some hm, st)"
    unfolding parse_header_def Let_def acc using none hm by simp
  ultimately show ?thesis using hm by simp
qed

lemma header_complete_nonempty: "header_complete hm \<Longrightarrow> hm \<noteq> []"
  by (auto simp add: header_complete_def column_keys_def)

lemma cell_at_complete:
  assumes "map_of hm k \<noteq> None"
  shows "cell_at hm k row = (if column_of hm k < length row then Inr (row ! column_of hm k) else Inl IndexError)"
  using assms by (auto simp add: cell_at_def column_of_def)

lemma row_cells_complete:
  assumes "header_complete hm"
  shows "row_cells hm row =
           (if too_few_columns hm row then Inl IndexError
            else Inr (row ! column_of hm ''sample_id'', row ! column_of hm ''nil'',
                      row ! column_of hm ''tb1'', row ! column_of hm ''tb2'',
                      row ! column_of hm ''mitogen''))"
proof -
  have k: "map_of hm ''sample_id'' \<noteq> None" "map_of hm ''nil'' \<noteq> None" "map_of hm ''tb1'' \<noteq> None"
          "map_of hm ''tb2'' \<noteq> None" "map_of hm ''mitogen'' \<noteq> None"
    using assms by (simp_all add: header_complete_def column_keys_def)
  show ?thesis
    unfolding row_cells_def cell_at_complete [OF k(1)] cell_at_complete [OF k(2)]
              cell_at_complete [OF k(3)] cell_at_complete [OF k(4)] cell_at_complete [OF k(5)]
    by (simp add: and_then_def too_few_columns_def column_keys_def not_le)
qed

lemma floats4_None_iff:
  "floats4 env a b c d = None \<longleftrightarrow>
     py_float env a = None \<or> py_float env b = None \<or> py_float env c = None \<or> py_float env d = None"
  by (auto simp add: floats4_def Option.bind_eq_None_conv)

lemma process_row_data_outcome:
  assumes "header_complete hm" and "\<not> is_processing st"
  shows "(fst (process_row_data env (\<lambda>s. s) row hm op_id run n st) = None \<longleftrightarrow> rejected env hm row)
         \<and> \<not> is_processing (snd (process_row_data env (\<lambda>s. s) row hm op_id run n st))"
proof (cases "too_few_columns hm row")
  case True
  then show ?thesis
    using assms by (simp add: process_row_data_def row_cells_complete rejected_def print_stderr_def)
next
  case few: False
  show ?thesis
  proof (cases "blank_sample_id hm row")
    case True
    then show ?thesis
      using assms few
      by (simp add: process_row_data_def row_cells_complete rejected_def print_stderr_def
            blank_sample_id_def cell_text_def Let_def)
  next
    case sid: False
    show ?thesis
    proof (cases "non_numeric env hm row")
      case True
      then have "floats4 env (cell_text hm ''nil'' row) (cell_text hm ''tb1'' row)
                   (cell_text hm ''tb2'' row) (cell_text hm ''mitogen'' row) = None"
        by (simp add: floats4_None_iff non_numeric_def)
      then show ?thesis
        using assms few sid True
        by (simp add: process_row_data_def row_cells_complete rejected_def print_stderr_def
              blank_sample_id_def cell_text_def Let_def)
    next
      case num: False
      then have "floats4 env (cell_text hm ''nil'' row) (cell_text hm ''tb1'' row)
                   (cell_text hm ''tb2'' row) (cell_text hm ''mitogen'' row) \<noteq> None"
        by (simp add: floats4_None_iff non_numeric_def)
      then obtain a b c d where f: "floats4 env (cell_text hm ''nil'' row) (cell_text hm ''tb1'' row)
                   (cell_text hm ''tb2'' row) (cell_text hm ''mitogen'' row) = Some (a, b, c, d)"
        by auto
      obtain r st' where run: "run_interpretation
                \<lparr> in_operator_id = op_id, in_run_id = run, in_sample_id = cell_text hm ''sample_id'' row,
                  in_nil = a, in_tb1 = b, in_tb2 = c, in_mitogen = d \<rparr> st = (Inr (Some r), st')"
           and idle: "\<not> is_processing st'"
        using run_interpretation_idle [OF assms(2)] by blast
      have "process_row_data env (\<lambda>s. s) row hm op_id run n st = (Some r, st')"
        using assms few sid f run
        by (simp add: process_row_data_def row_cells_complete blank_sample_id_def cell_text_def Let_def)
      then show ?thesis
        using few sid num idle by (simp add: rejected_def)
    qed
  qed
qed

lemma any_cell_iff: "list_ex (\<lambda>c. c \<noteq> []) row \<longleftrightarrow> \<not> fully_blank row"
  by (simp add: fully_blank_def list_ex_iff list_all_iff)

lemma csv_data_row_outcome:
  assumes "header_complete hm" and "\<not> is_processing st"
  shows "\<exists>new st'. csv_data_row env hm op_id run n row (res, sk) st
                     = ((res @ new, sk + (if \<not> fully_blank row \<and> rejected env hm row then 1 else 0)), st')
                 \<and> length new = (if \<not> fully_blank row \<and> \<not> rejected env hm row then 1 else 0)
                 \<and> \<not> is_processing st'"
proof (cases "fully_blank row")
  case True
  then show ?thesis using assms(2) by (simp add: any_cell_iff)
next
  case False
  obtain r st' where p: "process_row_data env (\<lambda>s. s) row hm op_id run n st = (r, st')"
    by (cases "process_row_data env (\<lambda>s. s) row hm op_id run n st")
  have o: "(r = None \<longleftrightarrow> rejected env hm row)" "\<not> is_processing st'"
    using process_row_data_outcome [OF assms, of env row op_id run n] p by simp_all
  show ?thesis
  proof (cases r)
    case None
    then show ?thesis using False p o by (simp add: any_cell_iff)
  next
    case (Some x)
    then show ?thesis using False p o by (simp add: any_cell_iff)
  qed
qed

lemma csv_rows_counts:
  assumes "header_complete hm" and "\<not> is_processing st" and "1 \<le> n"
  shows "\<exists>new st'. csv_rows env op_id run rows n (Some hm) (res, sk) st
                     = ((res @ new,
                         sk + length (filter (\<lambda>r. \<not> fully_blank r \<and> rejected env hm r) rows),
                         n + length rows - 1), st')
                 \<and> length new = length (filter (\<lambda>r. \<not> fully_blank r \<and> \<not> rejected env hm r) rows)
                 \<and> \<not> is_processing st'"
  using assms(2,3)
proof (induction rows arbitrary: n res sk st)
  case Nil
  then show ?case by (simp add: nat_diff_distrib')
next
  case (Cons row rows)
  obtain new1 st1 where
    step: "csv_data_row env hm op_id run (n + 1) row (res, sk) st
             = ((res @ new1, sk + (if \<not> fully_blank row \<and> rejected env hm row then 1 else 0)), st1)"
    and len1: "length new1 = (if \<not> fully_blank row \<and> \<not> rejected env hm row then 1 else 0)"
    and idle1: "\<not> is_processing st1"
    using csv_data_row_outcome [OF assms(1) Cons.prems(1)] by blast
  have n1: "1 \<le> n + 1" by simp
  obtain new2 st2 where
    rest: "csv_rows env op_id run rows (n + 1) (Some hm)
             (res @ new1, sk + (if \<not> fully_blank row \<and> rejected env hm row then 1 else 0)) st1
           = (((res @ new1) @ new2,
               (sk + (if \<not> fully_blank row \<and> rejected env hm row then 1 else 0))
                 + length (filter (\<lambda>r. \<not> fully_blank r \<and> rejected env hm r) rows),
               (n + 1) + length rows - 1), st2)"
    and len2: "length new2 = length (filter (\<lambda>r. \<not> fully_blank r \<and> \<not> rejected env hm r) rows)"
    and idle2: "\<not> is_processing st2"
    using Cons.IH [OF idle1 n1] by blast
  have ne: "hm \<noteq> []" by (rule header_complete_nonempty [OF assms(1)])
  have "csv_rows env op_id run (row # rows) n (Some hm) (res, sk) st
        = ((res @ (new1 @ new2),
            sk + length (filter (\<lambda>r. \<not> fully_blank r \<and> rejected env hm r) (row # rows)),
            n + length (row # rows) - 1), st2)"
    using Cons.prems(2) ne step rest by (simp add: Let_def)
  moreover have "length (new1 @ new2)
                 = length (filter (\<lambda>r. \<not> fully_blank r \<and> \<not> rejected env hm r) (row # rows))"
    using len1 len2 by simp
  ultimately show ?case using idle2 by blast
qed

lemma three_way_count:
  "length (filter (\<lambda>r. \<not> P r \<and> \<not> Q r) xs) + length (filter P xs)
     + length (filter (\<lambda>r. \<not> P r \<and> Q r) xs) = length xs"
  by (induction xs) auto

lemma process_csv_header:
  assumes "fst (parse_header (\<lambda>s. s) header st) = Some hm"
  shows "process_csv env (header # rows) op_id run st
         = csv_rows env op_id run rows 1 (Some hm) ([], 0) st"
proof -
  have p: "parse_header (\<lambda>s. s) header st = (Some hm, st)"
    using parse_header_Some [OF assms] by simp
  show ?thesis
    unfolding process_csv_def by (simp add: p Let_def)
qed

text \<open>
  C6. For a table whose header is valid, imported while no interpretation is in progress:
  the total is the number of data rows, fully blank rows included; the skipped count is
  the number of rows that are not fully blank and are rejected by one of the validation
  rules (too few columns, blank Sample ID, a value that is not a number); and the
  processed rows are the total less the fully blank rows less the skipped rows. Fully
  blank rows are passed over before validation and are not counted as skipped.
\<close>

theorem batch_counts:
  assumes "fst (parse_header (\<lambda>s. s) header st) = Some hm" and "\<not> is_processing st"
  shows "batch_total (process_csv env (header # rows) op_id run st) = length rows
       \<and> batch_skipped (process_csv env (header # rows) op_id run st)
           = length (filter (\<lambda>r. \<not> fully_blank r \<and> rejected env hm r) rows)
       \<and> length (batch_processed (process_csv env (header # rows) op_id run st))
           + length (filter fully_blank rows)
           + batch_skipped (process_csv env (header # rows) op_id run st)
           = batch_total (process_csv env (header # rows) op_id run st)
       \<and> length (batch_processed (process_csv env (header # rows) op_id run st))
           = batch_total (process_csv env (header # rows) op_id run st)
             - length (filter fully_blank rows)
             - batch_skipped (process_csv env (header # rows) op_id run st)"
proof -
  have c: "header_complete hm"
    using parse_header_Some [OF assms(1)] by simp
  obtain new st' where
    out: "process_csv env (header # rows) op_id run st
          = (([] @ new, 0 + length (filter (\<lambda>r. \<not> fully_blank r \<and> rejected env hm r) rows),
              1 + length rows - 1), st')"
    and len: "length new = length (filter (\<lambda>r. \<not> fully_blank r \<and> \<not> rejected env hm r) rows)"
    using csv_rows_counts [OF c assms(2), of 1 env op_id run rows "[]" 0]
    unfolding process_csv_header [OF assms(1)] by auto
  have t: "batch_total (process_csv env (header # rows) op_id run st) = length rows"
    unfolding out by (simp add: batch_total_def)
  have s: "batch_skipped (process_csv env (header # rows) op_id run st)
           = length (filter (\<lambda>r. \<not> fully_blank r \<and> rejected env hm r) rows)"
    unfolding out by (simp add: batch_skipped_def)
  have p: "length (batch_processed (process_csv env (header # rows) op_id run st))
           = length (filter (\<lambda>r. \<not> fully_blank r \<and> \<not> rejected env hm r) rows)"
    unfolding out by (simp add: batch_processed_def len)
  have sum: "length (batch_processed (process_csv env (header # rows) op_id run st))
           + length (filter fully_blank rows)
           + batch_skipped (process_csv env (header # rows) op_id run st)
           = batch_total (process_csv env (header # rows) op_id run st)"
    unfolding t s p by (rule three_way_count)
  have diff: "length (batch_processed (process_csv env (header # rows) op_id run st))
           = batch_total (process_csv env (header # rows) op_id run st)
             - length (filter fully_blank rows)
             - batch_skipped (process_csv env (header # rows) op_id run st)"
    using sum by linarith
  show ?thesis by (intro conjI t s sum diff)
qed

lemma lowered_example:
  "map (\<lambda>h. lower (strip h)) example_header = [''sample id'', ''nil'', ''tb1'', ''tb2'', ''mitogen'']"
  by (simp add: example_header_def strip_def lstrip_def rstrip_def whitespace_def lower_def lower_char_def)

lemma parse_example_header:
  "fst (parse_header (\<lambda>s. s) example_header example_state) = Some example_map"
  unfolding parse_header_def lowered_example
  by (simp add: enumerate_eq_zip upt_rec REQUIRED_BATCH_HEADERS_def example_map_def)

lemma strip_examples:
  "strip ''S1'' = ''S1''" "strip ''S2'' = ''S2''" "strip ''S4'' = ''S4''" "strip ''S5'' = ''S5''"
  "strip [] = []" "strip ''abc'' = ''abc''"
  "strip ''0.10'' = ''0.10''" "strip ''0.20'' = ''0.20''" "strip ''0.30'' = ''0.30''"
  "strip ''1.50'' = ''1.50''" "strip ''2.0'' = ''2.0''" "strip ''5.0'' = ''5.0''"
  "strip ''9.50'' = ''9.50''" "strip ''10.0'' = ''10.0''" "strip ''11.0'' = ''11.0''"
  "strip ''15.0'' = ''15.0''"
  by (simp_all add: strip_def lstrip_def rstrip_def whitespace_def)

lemma decimal_examples:
  "decimal_literal ''abc'' = None"
  "decimal_literal ''0.10'' \<noteq> None" "decimal_literal ''0.20'' \<noteq> None"
  "decimal_literal ''0.30'' \<noteq> None" "decimal_literal ''1.50'' \<noteq> None"
  "decimal_literal ''2.0'' \<noteq> None" "decimal_literal ''5.0'' \<noteq> None"
  "decimal_literal ''9.50'' \<noteq> None" "decimal_literal ''10.0'' \<noteq> None"
  "decimal_literal ''11.0'' \<noteq> None" "decimal_literal ''15.0'' \<noteq> None"
  by (simp_all add: decimal_literal_def is_digit_def Let_def)

lemma example_rejected:
  "filter (\<lambda>r. \<not> fully_blank r \<and> rejected example_env example_map r) example_rows
   = [['''', ''0.10'', ''0.20'', ''0.30'', ''2.0''], [''S4'', ''0.10'', ''0.20'', ''abc'', ''2.0'']]"
  by (simp add: example_rows_def fully_blank_def rejected_def too_few_columns_def column_keys_def
        column_of_def example_map_def blank_sample_id_def non_numeric_def cell_text_def
        example_env_def strip_examples decimal_examples)

lemma example_blank: "filter fully_blank example_rows = []"
  by (simp add: example_rows_def fully_blank_def)

text \<open>
  The example of the specification: five data rows, row 3 with a blank Sample ID and row 4
  with a TB2 value that is not a number, give total 5, skipped 2 and 3 processed entries.
\<close>

theorem batch_counts_witness:
  "fst (parse_header (\<lambda>s. s) example_header example_state) = Some example_map
   \<and> \<not> is_processing example_state
   \<and> length example_rows = 5
   \<and> batch_total (process_csv example_env (example_header # example_rows) ''op1'' ''run2'' example_state) = 5
   \<and> batch_skipped (process_csv example_env (example_header # example_rows) ''op1'' ''run2'' example_state) = 2
   \<and> length (batch_processed
               (process_csv example_env (example_header # example_rows) ''op1'' ''run2'' example_state)) = 3"
proof -
  have idle: "\<not> is_processing example_state"
    by (simp add: example_state_def)
  have five: "length example_rows = 5"
    by (simp add: example_rows_def)
  note t = batch_counts [OF parse_example_header idle, of example_env example_rows "''op1''" "''run2''"]
  show ?thesis
    using t parse_example_header idle five by (simp add: example_rejected example_blank)
qed

lemma only_whitespace_strip_leading: "only_whitespace s \<Longrightarrow> strip_leading whitespace s = []"
  by (induction s rule: only_whitespace.induct) (auto split: option.splits)

lemma only_whitespace_strip: "only_whitespace s \<Longrightarrow> strip s = []"
  by (simp add: strip_def lstrip_def rstrip_def only_whitespace_strip_leading)

lemma row_cells_first:
  assumes "row_cells hm row = Inr (a, b, c, d, e)"
  shows "a \<in> set row"
proof -
  have "cell_at hm ''sample_id'' row = Inr a"
    using assms by (auto simp add: row_cells_def and_then_def split: sum.splits)
  then show ?thesis
    by (auto simp add: cell_at_def split: option.splits if_splits)
qed

lemma whitespace_row_skipped:
  assumes "list_all only_whitespace row"
  shows "fst (process_row_data env (\<lambda>s. s) row hm op_id run n st) = None"
proof (cases "row_cells hm row")
  case (Inl err)
  then show ?thesis by (simp add: process_row_data_def)
next
  case (Inr cells)
  obtain a b c d e where cells: "cells = (a, b, c, d, e)" by (cases cells)
  have "a \<in> set row" using Inr cells row_cells_first by simp
  then have "strip a = []"
    using assms by (simp add: list_all_iff only_whitespace_strip)
  then show ?thesis using Inr cells by (simp add: process_row_data_def Let_def)
qed

lemma whitespace_row_message:
  assumes "list_all only_whitespace row" and "header_complete hm" and "\<not> too_few_columns hm row"
  shows "snd (process_row_data env (\<lambda>s. s) row hm op_id run n st)
         = print_stderr (''Skipping row '' @ str_nat n @ '': Missing Sample ID.'') st"
proof -
  have i: "column_of hm ''sample_id'' < length row"
    using assms(3) by (simp add: too_few_columns_def column_keys_def not_le)
  then have "row ! column_of hm ''sample_id'' \<in> set row" by simp
  then have "strip (row ! column_of hm ''sample_id'') = []"
    using assms(1) by (simp add: list_all_iff only_whitespace_strip)
  then show ?thesis
    using assms(2,3) by (simp add: process_row_data_def row_cells_complete Let_def)
qed

lemma blank_cell_text:
  assumes "list_all blank_cell row" and "v \<in> set (cell_values row)"
  shows "strip (py_str env v) = []"
proof -
  obtain cell where c: "cell \<in> set row" and v: "v = (case cell of None \<Rightarrow> XText [] | Some x \<Rightarrow> x)"
    using assms(2) by (auto simp add: cell_values_def)
  have b: "blank_cell cell" using assms(1) c by (simp add: list_all_iff)
  show ?thesis
  proof (cases cell)
    case None
    then show ?thesis using v by (simp add: py_str_def only_whitespace_strip)
  next
    case (Some x)
    then show ?thesis
      using v b by (cases x) (simp_all add: blank_cell_def py_str_def only_whitespace_strip)
  qed
qed

text \<open>
  C10. In the CSV import a data row leaves the processed list and the skipped count as they
  are exactly when every cell is the empty string. A row of whitespace cells with a
  non-empty cell is counted as skipped; when it has a cell under every mapped column, the
  reason printed is the missing Sample ID. In the Excel import a row whose cells are
  without value or hold only whitespace is passed over: nothing is processed, counted or
  printed.
\<close>

theorem blank_row_exclusion:
  "(fst (csv_data_row env hm op_id run n row (res, sk) st) = (res, sk) \<longleftrightarrow> list_all (\<lambda>c. c = []) row)
   \<and> (list_all only_whitespace row \<and> list_ex (\<lambda>c. c \<noteq> []) row
        \<longrightarrow> fst (csv_data_row env hm op_id run n row (res, sk) st) = (res, sk + 1))
   \<and> (list_all only_whitespace row \<and> list_ex (\<lambda>c. c \<noteq> []) row
        \<and> header_complete hm \<and> \<not> too_few_columns hm row
        \<longrightarrow> snd (csv_data_row env hm op_id run n row (res, sk) st)
            = print_stderr (''Skipping row '' @ str_nat n @ '': Missing Sample ID.'') st)
   \<and> (list_all blank_cell xrow
        \<longrightarrow> excel_data_row env hm op_id run n (cell_values xrow) (res, sk) st = ((res, sk), st))"
proof -
  obtain r st' where p: "process_row_data env (\<lambda>s. s) row hm op_id run n st = (r, st')"
    by (cases "process_row_data env (\<lambda>s. s) row hm op_id run n st")
  have a: "fst (csv_data_row env hm op_id run n row (res, sk) st) = (res, sk) \<longleftrightarrow> list_all (\<lambda>c. c = []) row"
  proof (cases "list_ex (\<lambda>c. c \<noteq> []) row")
    case True
    then have "\<not> list_all (\<lambda>c. c = []) row" by (simp add: list_ex_iff list_all_iff)
    moreover have "fst (csv_data_row env hm op_id run n row (res, sk) st) \<noteq> (res, sk)"
      using True p by (cases r) simp_all
    ultimately show ?thesis by simp
  next
    case False
    then have "list_all (\<lambda>c. c = []) row" by (simp add: list_ex_iff list_all_iff)
    then show ?thesis using False by simp
  qed
  have b: "list_all only_whitespace row \<and> list_ex (\<lambda>c. c \<noteq> []) row
        \<longrightarrow> fst (csv_data_row env hm op_id run n row (res, sk) st) = (res, sk + 1)"
  proof
    assume h: "list_all only_whitespace row \<and> list_ex (\<lambda>c. c \<noteq> []) row"
    then have "r = None"
      using whitespace_row_skipped [of row env hm op_id run n st] p by simp
    then show "fst (csv_data_row env hm op_id run n row (res, sk) st) = (res, sk + 1)"
      using h p by simp
  qed
  have c: "list_all only_whitespace row \<and> list_ex (\<lambda>c. c \<noteq> []) row
        \<and> header_complete hm \<and> \<not> too_few_columns hm row
        \<longrightarrow> snd (csv_data_row env hm op_id run n row (res, sk) st)
            = print_stderr (''Skipping row '' @ str_nat n @ '': Missing Sample ID.'') st"
  proof
    assume h: "list_all only_whitespace row \<and> list_ex (\<lambda>c. c \<noteq> []) row
               \<and> header_complete hm \<and> \<not> too_few_columns hm row"
    then have "st' = print_stderr (''Skipping row '' @ str_nat n @ '': Missing Sample ID.'') st"
      using whitespace_row_message [of row hm env op_id run n st] p by simp
    then show "snd (csv_data_row env hm op_id run n row (res, sk) st)
            = print_stderr (''Skipping row '' @ str_nat n @ '': Missing Sample ID.'') st"
      using h p by (cases r) simp_all
  qed
  have d: "list_all blank_cell xrow
        \<longrightarrow> excel_data_row env hm op_id run n (cell_values xrow) (res, sk) st = ((res, sk), st)"
  proof
    assume h: "list_all blank_cell xrow"
    have "\<not> list_ex (\<lambda>v. strip (py_str env v) \<noteq> []) (cell_values xrow)"
      using blank_cell_text [OF h] by (simp add: list_ex_iff)
    then show "excel_data_row env hm op_id run n (cell_values xrow) (res, sk) st = ((res, sk), st)"
      by simp
  qed
  show ?thesis by (intro conjI a b c d)
qed

lemma only_whitespace_examples:
  "only_whitespace '' ''" "only_whitespace [CHR 0x09]" "only_whitespace []"
  by (simp_all add: whitespace_def)

theorem blank_row_exclusion_witness:
  "list_all only_whitespace space_row \<and> list_ex (\<lambda>c. c \<noteq> []) space_row
   \<and> header_complete example_map \<and> \<not> too_few_columns example_map space_row
   \<and> list_all blank_cell space_xrow
   \<and> \<not> list_all (\<lambda>c. c = []) space_row
   \<and> fst (csv_data_row example_env example_map ''op1'' ''run2'' 2 space_row ([], 0) example_state) = ([], 1)
   \<and> stderr (snd (csv_data_row example_env example_map ''op1'' ''run2'' 2 space_row ([], 0) example_state))
       = [''Skipping row 2: Missing Sample ID.'']
   \<and> excel_data_row example_env example_map ''op1'' ''run2'' 2 (cell_values space_xrow) ([], 0) example_state
       = (([], 0), example_state)
   \<and> list_all (\<lambda>c. c = []) [[], [], [], [], []]
   \<and> fst (csv_data_row example_env example_map ''op1'' ''run2'' 3 [[], [], [], [], []] ([], 0) example_state)
       = ([], 0)"
proof -
  have w: "list_all only_whitespace space_row"
    by (simp add: space_row_def only_whitespace_examples del: only_whitespace.simps(2))
  have e: "list_ex (\<lambda>c. c \<noteq> []) space_row" "\<not> list_all (\<lambda>c. c = []) space_row"
    by (simp_all add: space_row_def)
  have h: "header_complete example_map"
    by (simp add: header_complete_def column_keys_def example_map_def)
  have f: "\<not> too_few_columns example_map space_row"
    by (simp add: too_few_columns_def column_keys_def column_of_def example_map_def space_row_def)
  have x: "list_all blank_cell space_xrow"
    by (simp add: space_xrow_def blank_cell_def only_whitespace_examples del: only_whitespace.simps(2))
  have z: "list_all (\<lambda>c. c = []) [[], [], [], [], []]"
    by simp
  have s: "stderr example_state = []" by (simp add: example_state_def)
  have n2: "str_nat 2 = ''2''" by (simp add: str_nat.simps digit_char_def)
  note t1 = blank_row_exclusion [of example_env example_map "''op1''" "''run2''" 2 space_row "[]" 0
                                   example_state space_xrow]
  note t2 = blank_row_exclusion [of example_env example_map "''op1''" "''run2''" 3 "[[], [], [], [], []]"
                                   "[]" 0 example_state space_xrow]
  have c1: "fst (csv_data_row example_env example_map ''op1'' ''run2'' 2 space_row ([], 0) example_state) = ([], 1)"
    using t1 w e(1) by simp
  have c2: "stderr (snd (csv_data_row example_env example_map ''op1'' ''run2'' 2 space_row ([], 0) example_state))
       = [''Skipping row 2: Missing Sample ID.'']"
    using t1 w e(1) h f by (simp add: print_stderr_def s n2)
  have c3: "excel_data_row example_env example_map ''op1'' ''run2'' 2 (cell_values space_xrow) ([], 0) example_state
       = (([], 0), example_state)"
    using t1 x by blast
  have c4: "fst (csv_data_row example_env example_map ''op1'' ''run2'' 3 [[], [], [], [], []] ([], 0) example_state)
       = ([], 0)"
    using t2 z by blast
  show ?thesis by (intro conjI w e h f x z c1 c2 c3 c4)
qed

end
